theory Spec2Isabelle
  imports Complex_Main "HOL-Library.AList" "HOL-Library.Sublist"
begin

section \<open>Python values shared by the models\<close>

text \<open>
  Exceptions of the Python code are values.  A function that mutates its receiver and may
  raise returns the state it leaves behind together with either the exception or the
  returned value, because a raised exception does not undo the mutations made before it.
\<close>

datatype error =
  ValueError | FileExistsError | TypeError | AttributeError | IndexError | KeyError


section \<open>Arrays of the storage engine\<close>

text \<open>
  A NumPy array, as far as the writer looks at it: its shape, its dtype and its items by
  index tuple.  A Zarr array adds the chunk shape it was created with.  Items are read
  only at indices inside the shape.  Values are stored as given: the conversion to the
  array's dtype that the storage engine applies on a write is not part of the model.
\<close>

record 'a ndarray =
  nd_shape :: "nat list"
  nd_dtype :: string
  nd_item :: "nat list \<Rightarrow> 'a"

record 'a zarray =
  zshape :: "nat list"
  zchunks :: "nat list"
  zdtype :: string
  zitem :: "nat list \<Rightarrow> 'a"

text \<open>
  What \<open>group.get(name)\<close> can return besides \<open>None\<close>: an array, or a sub-group, of which
  the writer observes only the truth value, that is whether it has members.
\<close>

datatype 'a zobj = ZArray "'a zarray" | ZGroup nat

type_synonym 'a zgroup = "string \<rightharpoonup> 'a zobj"

text \<open>\<open>isinstance(value, zarr.Array)\<close>.\<close>

fun is_array :: "'a zobj \<Rightarrow> bool" where
  "is_array (ZArray _) = True"
| "is_array (ZGroup _) = False"

definition in_bounds :: "nat list \<Rightarrow> nat list \<Rightarrow> bool" where
  "in_bounds shape idx = list_all2 (\<lambda>i n. i < n) idx shape"

text \<open>\<open>shape[-3:]\<close>: the last three entries, or all of them when there are fewer.\<close>

definition last3 :: "'b list \<Rightarrow> 'b list" where
  "last3 s = drop (length s - 3) s"

text \<open>\<open>shape[i]\<close> for a non-negative \<open>i\<close>.\<close>

definition tuple_get :: "'b list \<Rightarrow> nat \<Rightarrow> error + 'b" where
  "tuple_get s i = (if i < length s then Inr (s ! i) else Inl IndexError)"

text \<open>
  \<open>bool(value)\<close> for an object of the store.  Neither class defines \<open>__bool__\<close>, so Python
  takes \<open>len(value)\<close>: the number of members of a group, the first extent of an array,
  and \<open>TypeError\<close> for an array without dimensions, which has no length.
\<close>

fun zobj_bool :: "'a zobj \<Rightarrow> error + bool" where
  "zobj_bool (ZGroup n) = Inr (n \<noteq> 0)"
| "zobj_bool (ZArray a) = (case zshape a of [] \<Rightarrow> Inl TypeError | n # _ \<Rightarrow> Inr (n \<noteq> 0))"

text \<open>
  \<open>group.zeros(name, shape=..., chunks=..., dtype=..., overwrite=False)\<close> where the name
  is free: a new array that reads zero everywhere.
\<close>

definition zeros :: "nat list \<Rightarrow> nat list \<Rightarrow> string \<Rightarrow> ('a::zero) zarray" where
  "zeros shape chunks dtype =
     \<lparr>zshape = shape, zchunks = chunks, zdtype = dtype, zitem = (\<lambda>_. 0)\<rparr>"

text \<open>
  \<open>array.resize(*new_shape)\<close>: the number of dimensions cannot change
  (\<open>ValueError\<close>); items inside the old shape stay, every other item reads as the fill
  value zero.
\<close>

definition resize :: "('a::zero) zarray \<Rightarrow> nat list \<Rightarrow> error + 'a zarray" where
  "resize a new_shape =
     (if length new_shape \<noteq> length (zshape a) then Inl ValueError
      else Inr (a\<lparr>zshape := new_shape,
                  zitem := (\<lambda>idx. if in_bounds (zshape a) idx then zitem a idx else 0)\<rparr>))"

text \<open>
  \<open>array[t, c] = data\<close>: two integer indices select the block of the remaining
  dimensions.  Fewer than two dimensions or an index outside the extent is an
  \<open>IndexError\<close>; a value whose shape is not the block's is a \<open>ValueError\<close>.
\<close>

definition setitem2 :: "'a zarray \<Rightarrow> nat \<Rightarrow> nat \<Rightarrow> 'a ndarray \<Rightarrow> error + 'a zarray" where
  "setitem2 a t c data =
     (case zshape a of
        n0 # n1 # rest \<Rightarrow>
          if \<not> (t < n0 \<and> c < n1) then Inl IndexError
          else if nd_shape data \<noteq> rest then Inl ValueError
          else Inr (a\<lparr>zitem := (\<lambda>idx. if in_bounds (zshape a) idx \<and> take 2 idx = [t, c]
                                       then nd_item data (drop 2 idx) else zitem a idx)\<rparr>)
      | _ \<Rightarrow> Inl IndexError)"

section \<open>Metadata records\<close>

text \<open>
  The metadata classes of \<open>iohub.ngff_meta\<close> are plain data here: a coordinate
  transformation is the identity, a scale vector or a translation vector, with real
  numbers for the floats; a dataset is a path with its transformations.
\<close>

datatype transformation = Identity | Scale "real list" | Translation "real list"

record dataset_meta =
  ds_path :: string
  coordinate_transformations :: "transformation list"

record multiscale_meta =
  ms_version :: string
  ms_axes :: "string list"
  datasets :: "dataset_meta list"
  ms_metadata :: "(string \<times> string) list option"

record channel_meta =
  ch_label :: string
  ch_first :: bool

record omero_meta =
  om_version :: string
  om_id :: int
  om_name :: string
  om_channels :: "channel_meta list"

record images_meta =
  multiscales :: "multiscale_meta list"
  omero :: omero_meta

text \<open>The values this writer stores in a group's attribute document.\<close>

datatype attr = AMultiscales "multiscale_meta list" | AOmero omero_meta | AOther string

section \<open>\<open>OMEZarrWriter\<close> (writer.py)\<close>

text \<open>
  The writer object: its configuration, the attribute document of its root group and the
  \<open>images_meta\<close> attribute, which \<open>__init__\<close> does not set.
\<close>

record omezarr_writer =
  arr_name :: string
  channel_names :: "string list"
  version :: string
  axes :: "string list"
  root_name :: string
  root_attrs :: "(string \<times> attr) list"
  images_meta :: "images_meta option"

text \<open>
  \<open>require_array(group, name, zyx_shape, dtype, chunks=None)\<close>.  The result is the group
  after the call and the exception, the array returned, or \<open>None\<close> where the method falls
  off its last \<open>elif\<close>.  \<open>self._overwrite\<close> is always \<open>False\<close>.
\<close>

definition require_array ::
  "('a::zero) zgroup \<Rightarrow> string \<Rightarrow> nat list \<Rightarrow> string \<Rightarrow> nat list option
     \<Rightarrow> 'a zgroup \<times> (error + 'a zarray option)" where
  "require_array grp name zyx_shape dtype chunks =
     (if length zyx_shape \<noteq> 3 then (grp, Inl ValueError)
      else case grp name of
             None \<Rightarrow>
               (let chunks' = (case chunks of None \<Rightarrow> zyx_shape
                               | Some cs \<Rightarrow> if cs = [] then zyx_shape else cs);
                    a = zeros (1 # 1 # zyx_shape) chunks' dtype
                in (grp(name \<mapsto> ZArray a), Inr (Some a)))
           | Some v \<Rightarrow>
               (case zobj_bool v of
                  Inl e \<Rightarrow> (grp, Inl e)
                | Inr b \<Rightarrow>
                    if b \<and> \<not> is_array v then (grp, Inl FileExistsError)
                    else (case v of
                            ZArray a \<Rightarrow>
                              if last3 (zshape a) = zyx_shape then (grp, Inr (Some a))
                              else (grp, Inl FileExistsError)
                          | ZGroup _ \<Rightarrow> (grp, Inr None))))"

text \<open>\<open>_dataset_meta(name, transform)\<close>: no or an empty transform list means identity.\<close>

definition dataset_meta_of :: "string \<Rightarrow> transformation list option \<Rightarrow> dataset_meta" where
  "dataset_meta_of name transform =
     \<lparr>ds_path = name,
      coordinate_transformations =
        (case transform of None \<Rightarrow> [Identity] | Some ts \<Rightarrow> if ts = [] then [Identity] else ts)\<rparr>"

text \<open>
  \<open>_omero_meta(id, group)\<close> with the default \<open>clims\<close>: the channel names are zipped with
  four \<open>None\<close>s, so at most four channels are listed, and \<open>first_chan\<close>, set at the first
  one, is never reset.
\<close>

definition omero_meta_of :: "omezarr_writer \<Rightarrow> int \<Rightarrow> string \<Rightarrow> omero_meta" where
  "omero_meta_of self i group_name =
     \<lparr>om_version = version self, om_id = i, om_name = group_name,
      om_channels = map (\<lambda>n. \<lparr>ch_label = n, ch_first = True\<rparr>) (take 4 (channel_names self))\<rparr>"

definition images_meta_dict :: "images_meta \<Rightarrow> (string \<times> attr) list" where
  "images_meta_dict m = [(''multiscales'', AMultiscales (multiscales m)), (''omero'', AOmero (omero m))]"

text \<open>
  \<open>OMEZarrWriter._dump_zstack_meta(name, transform, additional_meta)\<close>.  Reading
  \<open>self.images_meta\<close> before it was ever set is an \<open>AttributeError\<close>, and
  \<open>multiscales[0]\<close> of an empty list an \<open>IndexError\<close>.
\<close>

definition dump_zstack_meta ::
  "omezarr_writer \<Rightarrow> string \<Rightarrow> transformation list option \<Rightarrow> (string \<times> string) list option
     \<Rightarrow> omezarr_writer \<times> (error + unit)" where
  "dump_zstack_meta self name transform additional_meta =
     (let dm = dataset_meta_of name transform;
          put = (\<lambda>s m. (s\<lparr>images_meta := Some m, root_attrs := images_meta_dict m\<rparr>, Inr ()))
      in if map_of (root_attrs self) ''multiscales'' = None then
           put self
             \<lparr>multiscales =
                [\<lparr>ms_version = version self, ms_axes = axes self, datasets = [dm],
                  ms_metadata = additional_meta\<rparr>],
              omero = omero_meta_of self 0 (root_name self)\<rparr>
         else
           (case images_meta self of
              None \<Rightarrow> (self, Inl AttributeError)
            | Some m \<Rightarrow>
                (case multiscales m of
                   [] \<Rightarrow> (self, Inl IndexError)
                 | ms # mss \<Rightarrow>
                     if ds_path dm \<notin> set (map ds_path (datasets ms))
                     then put self (m\<lparr>multiscales := ms\<lparr>datasets := datasets ms @ [dm]\<rparr> # mss\<rparr>)
                     else put self m)))"

text \<open>\<open>if not name: name = self.arr_name\<close>: no name or the empty string gives the base name.\<close>

definition effective_name :: "omezarr_writer \<Rightarrow> string option \<Rightarrow> string" where
  "effective_name self name =
     (case name of None \<Rightarrow> arr_name self | Some n \<Rightarrow> if n = [] then arr_name self else n)"

text \<open>
  \<open>OMEZarrWriter.write_zstack(data, group, time_index, channel_index, transform=None,
  name=None, auto_meta=True, additional_meta=None)\<close>.  The result is the writer and the
  group as the call leaves them, and the exception raised or \<open>()\<close>.  The handle that
  \<open>require_array\<close> returns is the array stored under \<open>name\<close>, so resizing it and writing
  to it update the group's entry.  A \<open>None\<close> from \<open>require_array\<close> has no \<open>shape\<close>.
\<close>

definition write_zstack ::
  "omezarr_writer \<Rightarrow> ('a::zero) ndarray \<Rightarrow> 'a zgroup \<Rightarrow> int \<Rightarrow> int \<Rightarrow> transformation list option
     \<Rightarrow> string option \<Rightarrow> bool \<Rightarrow> (string \<times> string) list option
     \<Rightarrow> omezarr_writer \<times> 'a zgroup \<times> (error + unit)" where
  "write_zstack self data grp time_index channel_index transform name auto_meta additional_meta =
     (if length (nd_shape data) < 3 then (self, grp, Inl ValueError)
      else if time_index < 0 \<or> channel_index < 0 then (self, grp, Inl ValueError)
      else
        (let name' = effective_name self name;
             zyx_shape = last3 (nd_shape data);
             t = nat time_index; c = nat channel_index
         in case require_array grp name' zyx_shape (nd_dtype data) None of
              (g1, Inl e) \<Rightarrow> (self, g1, Inl e)
            | (g1, Inr None) \<Rightarrow> (self, g1, Inl AttributeError)
            | (g1, Inr (Some a)) \<Rightarrow>
                (case tuple_get (zshape a) 0 of
                   Inl e \<Rightarrow> (self, g1, Inl e)
                 | Inr n0 \<Rightarrow>
                (case tuple_get (zshape a) 1 of
                   Inl e \<Rightarrow> (self, g1, Inl e)
                 | Inr n1 \<Rightarrow>
                (case (if t \<ge> n0 \<or> c \<ge> n1
                       then resize a (max (t + 1) n0 # max (c + 1) n1 # zyx_shape)
                       else Inr a) of
                   Inl e \<Rightarrow> (self, g1, Inl e)
                 | Inr a1 \<Rightarrow>
                     (let g2 = g1(name' \<mapsto> ZArray a1)
                      in case setitem2 a1 t c data of
                           Inl e \<Rightarrow> (self, g2, Inl e)
                         | Inr a2 \<Rightarrow>
                             (let g3 = g2(name' \<mapsto> ZArray a2)
                              in if auto_meta then
                                   (case dump_zstack_meta self name' transform additional_meta of
                                      (self', r) \<Rightarrow> (self', g3, r))
                                 else (self, g3, Inr ()))))))))"

text \<open>A group holding one five-dimensional array under the name \<open>0\<close>, for concrete evaluation.\<close>

definition example_array :: "int zarray" where
  "example_array = \<lparr>zshape = [2, 1, 4, 3, 5], zchunks = [4, 3, 5], zdtype = ''uint16'',
                    zitem = (\<lambda>idx. if idx = [1, 0, 2, 2, 2] then 7 else 0)\<rparr>"

definition example_group :: "int zgroup" where
  "example_group = [''0'' \<mapsto> ZArray example_array]"

text \<open>A writer with two channels and a z-stack of shape \<open>(4, 3, 5)\<close>.\<close>

definition example_omezarr_writer :: omezarr_writer where
  "example_omezarr_writer =
     \<lparr>arr_name = ''0'', channel_names = [''DAPI'', ''GFP''], version = ''0.4'',
      axes = [''T'', ''C'', ''Z'', ''Y'', ''X''], root_name = ''/'', root_attrs = [],
      images_meta = None\<rparr>"

definition example_data :: "int ndarray" where
  "example_data = \<lparr>nd_shape = [4, 3, 5], nd_dtype = ''uint16'',
                   nd_item = (\<lambda>idx. if idx = [1, 1, 1] then 9 else 1)\<rparr>"

text \<open>Data of four and of two dimensions.\<close>

definition example_data_4d :: "int ndarray" where
  "example_data_4d = \<lparr>nd_shape = [2, 4, 3, 5], nd_dtype = ''uint16'', nd_item = (\<lambda>_. 1)\<rparr>"

definition example_data_2d :: "int ndarray" where
  "example_data_2d = \<lparr>nd_shape = [3, 5], nd_dtype = ''uint16'', nd_item = (\<lambda>_. 1)\<rparr>"

section \<open>\<open>HCSWriter\<close>: rows, columns and wells (writer.py)\<close>











section \<open>\<open>hcs_position_labels\<close> (mm_fov.py, reader_base.py)\<close>

subsection \<open>Python string operations\<close>

text \<open>
  \<open>s.split(sep)\<close> for a separator that is not empty: the string is cut at every occurrence
  of the separator, found from left to right without overlap.  The argument order here is
  separator first.  Labels are taken to be ASCII.
\<close>

fun py_split :: "string \<Rightarrow> string \<Rightarrow> string list" where
  "py_split sep [] = [[]]"
| "py_split sep (c # cs) =
     (if sep \<noteq> [] \<and> prefix sep (c # cs) then [] # py_split sep (drop (length sep - 1) cs)
      else (case py_split sep cs of p # ps \<Rightarrow> (c # p) # ps | [] \<Rightarrow> [[c]]))"

text \<open>\<open>s.replace("_", "")\<close>.\<close>

definition remove_underscores :: "string \<Rightarrow> string" where
  "remove_underscores s = filter (\<lambda>c. c \<noteq> CHR ''_'') s"

text \<open>
  \<open>int(s)\<close> for a string without underscores: white space around it is dropped, a sign
  may lead, and what remains must be one or more decimal digits; anything else is a
  \<open>ValueError\<close>, here \<open>None\<close>.
\<close>

definition py_isspace :: "char \<Rightarrow> bool" where
  "py_isspace c = (of_char c \<in> {9, 10, 11, 12, 13, 28, 29, 30, 31, 32 :: nat})"

definition py_isdigit :: "char \<Rightarrow> bool" where
  "py_isdigit c = (48 \<le> (of_char c :: nat) \<and> (of_char c :: nat) \<le> 57)"

definition py_strip :: "string \<Rightarrow> string" where
  "py_strip s = rev (dropWhile py_isspace (rev (dropWhile py_isspace s)))"

definition digits_value :: "string \<Rightarrow> nat" where
  "digits_value ds = foldl (\<lambda>acc c. 10 * acc + (of_char c - 48)) 0 ds"

definition py_int :: "string \<Rightarrow> int option" where
  "py_int s =
     (let s' = py_strip s;
          (neg, ds) = (case s' of
                         c # r \<Rightarrow> if c = CHR ''-'' then (True, r)
                                  else if c = CHR ''+'' then (False, r) else (False, s')
                       | [] \<Rightarrow> (False, s'))
      in if ds \<noteq> [] \<and> list_all py_isdigit ds
         then Some (if neg then - int (digits_value ds) else int (digits_value ds))
         else None)"

text \<open>\<open>str(i)\<close> for an integer.\<close>

fun nat_digits :: "nat \<Rightarrow> string" where
  "nat_digits n =
     (if n < 10 then [char_of (48 + n)] else nat_digits (n div 10) @ [char_of (48 + n mod 10)])"

declare nat_digits.simps [simp del]

definition py_str :: "int \<Rightarrow> string" where
  "py_str i = (if i < 0 then CHR ''-'' # nat_digits (nat (- i)) else nat_digits (nat i))"

subsection \<open>Stage positions and the two parsers\<close>

text \<open>
  A stage position is a dict from keys to strings or floats.  \<open>pos["Label"].split(...)\<close>
  raises when the key is missing or the value is not a string; like every exception inside
  the \<open>try\<close> blocks this only selects the next format, so a block is a computation that
  yields its list or fails.
\<close>

datatype pvalue = PStr string | PNum real

type_synonym position = "string \<rightharpoonup> pvalue"

text \<open>
  Both exceptions of the property are \<open>ValueError\<close>s: the first says that there are no
  stage positions, the second carries in its message the list \<open>pos.get("Label")\<close> of
  all positions.
\<close>

datatype label_error = NoStagePositions | BadLabelFormat "pvalue option list"

definition label_split :: "string \<Rightarrow> position \<Rightarrow> string list option" where
  "label_split sep pos =
     (case pos ''Label'' of Some (PStr l) \<Rightarrow> Some (py_split sep l) | _ \<Rightarrow> None)"

text \<open>
  \<open>(well[0], well[1:], fov) for well, fov in labels\<close>: the split must have given exactly
  two parts, and the first must have a first character.
\<close>

fun site_tuple :: "string list \<Rightarrow> (string \<times> string \<times> string) option" where
  "site_tuple [c # cs, fov] = Some ([c], cs, fov)"
| "site_tuple _ = None"

definition parse_site :: "position list \<Rightarrow> (string \<times> string \<times> string) list option" where
  "parse_site ps =
     (case those (map (label_split ''-Site_'') ps) of
        None \<Rightarrow> None
      | Some labels \<Rightarrow> those (map site_tuple labels))"

text \<open>\<open>("0", col, fov.replace("_", "")) for col, fov in labels\<close> of \<open>mm_fov.py\<close>.\<close>

fun mm_pos_tuple :: "string list \<Rightarrow> (string \<times> string \<times> string) option" where
  "mm_pos_tuple [col, fov] = Some (''0'', col, remove_underscores fov)"
| "mm_pos_tuple _ = None"

definition mm_parse_pos :: "position list \<Rightarrow> (string \<times> string \<times> string) list option" where
  "mm_parse_pos ps =
     (case those (map (label_split ''-Pos'') ps) of
        None \<Rightarrow> None
      | Some labels \<Rightarrow> those (map mm_pos_tuple labels))"

text \<open>\<open>MicroManagerFOVMapping.hcs_position_labels\<close>.\<close>

definition mm_hcs_position_labels ::
  "position list \<Rightarrow> label_error + (string \<times> string \<times> string) list" where
  "mm_hcs_position_labels stage_positions =
     (if stage_positions = [] then Inl NoStagePositions
      else case parse_site stage_positions of
             Some r \<Rightarrow> Inr r
           | None \<Rightarrow>
               (case mm_parse_pos stage_positions of
                  Some r \<Rightarrow> Inr r
                | None \<Rightarrow> Inl (BadLabelFormat (map (\<lambda>pos. pos ''Label'') stage_positions))))"

text \<open>
  \<open>(row, *[str(int(s)) for s in col_fov.split("_")]) for row, col_fov in labels\<close> of
  \<open>reader_base.py\<close>: a tuple of the row and one entry for every part of the second
  component, so the tuples are lists of strings here.
\<close>

fun rb_pos_tuple :: "string list \<Rightarrow> string list option" where
  "rb_pos_tuple [row, col_fov] =
     map_option (\<lambda>is. row # map py_str is) (those (map py_int (py_split ''_'' col_fov)))"
| "rb_pos_tuple _ = None"

definition rb_parse_pos :: "position list \<Rightarrow> string list list option" where
  "rb_parse_pos ps =
     (case those (map (label_split ''-Pos'') ps) of
        None \<Rightarrow> None
      | Some labels \<Rightarrow> those (map rb_pos_tuple labels))"

text \<open>\<open>ReaderBase.hcs_position_labels\<close>.\<close>

definition rb_hcs_position_labels :: "position list \<Rightarrow> label_error + string list list" where
  "rb_hcs_position_labels stage_positions =
     (if stage_positions = [] then Inl NoStagePositions
      else case parse_site stage_positions of
             Some r \<Rightarrow> Inr (map (\<lambda>(row, col, fov). [row, col, fov]) r)
           | None \<Rightarrow>
               (case rb_parse_pos stage_positions of
                  Some r \<Rightarrow> Inr r
                | None \<Rightarrow> Inl (BadLabelFormat (map (\<lambda>pos. pos ''Label'') stage_positions))))"

text \<open>A stage position with the given label and a stage coordinate.\<close>

definition labelled :: "string \<Rightarrow> position" where
  "labelled l = [''Label'' \<mapsto> PStr l, ''X'' \<mapsto> PNum 0]"

section \<open>The img node: transforms and scale (specified behaviour)\<close>

text \<open>
  Modelled from the spec: the image node (FOV) of \<open>iohub/ngff/nodes.py\<close>, which is not
  among the sources; only its tests are (\<open>tests/ngff/test_ngff.py\<close>).  Every definition
  of this section and the next follows the specification, and the tests where they decide.
  A field of view holds its axis names, its own (FOV-level) pipeline, its datasets and the
  \<open>iohub\<close> entry of its attributes, where \<open>set_scale\<close> keeps earlier scale values.
\<close>

record fov =
  fov_axes :: "string list"
  fov_transform :: "transformation list"
  fov_datasets :: "dataset_meta list"
  fov_iohub :: "(string \<times> real) list"

definition find_dataset :: "fov \<Rightarrow> string \<Rightarrow> dataset_meta option" where
  "find_dataset f img = find (\<lambda>d. ds_path d = img) (fov_datasets f)"

text \<open>
  Modelled from the spec: \<open>set_transform(image, transform)\<close>, missing with \<open>nodes.py\<close>.
  \<open>image = "*"\<close> sets the FOV-level pipeline, a dataset path sets that dataset's own
  pipeline, and a path that names no dataset is a \<open>KeyError\<close>.
\<close>

definition set_transform :: "fov \<Rightarrow> string \<Rightarrow> transformation list \<Rightarrow> fov \<times> (error + unit)" where
  "set_transform f img transform =
     (if img = ''*'' then (f\<lparr>fov_transform := transform\<rparr>, Inr ())
      else case find_dataset f img of
             None \<Rightarrow> (f, Inl KeyError)
           | Some _ \<Rightarrow>
               (f\<lparr>fov_datasets :=
                    map (\<lambda>d. if ds_path d = img
                              then d\<lparr>coordinate_transformations := transform\<rparr> else d)
                      (fov_datasets f)\<rparr>,
                Inr ()))"

fun apply_scale :: "real list \<Rightarrow> transformation \<Rightarrow> real list" where
  "apply_scale acc (Scale s) = map2 (*) acc s"
| "apply_scale acc _ = acc"

fun apply_translation :: "real list \<Rightarrow> transformation \<Rightarrow> real list" where
  "apply_translation acc (Translation v) = map2 (+) acc v"
| "apply_translation acc _ = acc"

text \<open>
  Modelled from the spec: \<open>get_effective_scale(image)\<close> and
  \<open>get_effective_translation(image)\<close>, missing with \<open>nodes.py\<close>.  The FOV-level pipeline
  is composed with the dataset's own: scale factors multiply per axis, translations add
  per axis, one number per axis is returned.  This is also what the table
  \<open>input_transformations\<close> / \<open>target_scales\<close> / \<open>target_translations\<close> of the tests
  expects: with scale 2 and translation 1 at both levels the scale is 4 and the
  translation 2, where applying one pipeline after the other as affine maps would give
  the translation 3.
\<close>

definition get_effective_scale :: "fov \<Rightarrow> string \<Rightarrow> error + real list" where
  "get_effective_scale f img =
     (case find_dataset f img of
        None \<Rightarrow> Inl KeyError
      | Some d \<Rightarrow>
          Inr (foldl apply_scale (replicate (length (fov_axes f)) 1)
                 (fov_transform f @ coordinate_transformations d)))"

definition get_effective_translation :: "fov \<Rightarrow> string \<Rightarrow> error + real list" where
  "get_effective_translation f img =
     (case find_dataset f img of
        None \<Rightarrow> Inl KeyError
      | Some d \<Rightarrow>
          Inr (foldl apply_translation (replicate (length (fov_axes f)) 0)
                 (fov_transform f @ coordinate_transformations d)))"

text \<open>
  The scale vectors and the translation vectors of a pipeline, in order; they serve to
  state properties and are not part of the node.
\<close>

fun scale_vectors :: "transformation list \<Rightarrow> real list list" where
  "scale_vectors [] = []"
| "scale_vectors (Scale s # ts) = s # scale_vectors ts"
| "scale_vectors (_ # ts) = scale_vectors ts"

fun translation_vectors :: "transformation list \<Rightarrow> real list list" where
  "translation_vectors [] = []"
| "translation_vectors (Translation v # ts) = v # translation_vectors ts"
| "translation_vectors (_ # ts) = translation_vectors ts"

text \<open>A pipeline is sized to \<open>n\<close> axes when each of its vectors has \<open>n\<close> entries.\<close>

fun sized :: "nat \<Rightarrow> transformation \<Rightarrow> bool" where
  "sized n Identity = True"
| "sized n (Scale s) = (length s = n)"
| "sized n (Translation v) = (length v = n)"








text \<open>
  The node of the tests after \<open>create_zeros\<close>: five axes, identity pipelines, one dataset.
\<close>

definition new_fov :: "string \<Rightarrow> fov" where
  "new_fov name =
     \<lparr>fov_axes = [''T'', ''C'', ''Z'', ''Y'', ''X''], fov_transform = [Identity],
      fov_datasets = [\<lparr>ds_path = name, coordinate_transformations = [Identity]\<rparr>],
      fov_iohub = []\<rparr>"

definition with_transforms :: "string \<Rightarrow> transformation list \<Rightarrow> transformation list \<Rightarrow> fov" where
  "with_transforms name fov_t img_t =
     fst (set_transform (fst (set_transform (new_fov name) ''*'' fov_t)) name img_t)"

text \<open>The last row of the tests' table: scale 2 and translation 1 at both levels.\<close>

definition table_fov :: fov where
  "table_fov = with_transforms ''0''
     [Scale [2, 2, 2, 2, 2], Translation [1, 1, 1, 1, 1]]
     [Scale [2, 2, 2, 2, 2], Translation [1, 1, 1, 1, 1]]"

definition table_dataset :: dataset_meta where
  "table_dataset = \<lparr>ds_path = ''0'',
     coordinate_transformations = [Scale [2, 2, 2, 2, 2], Translation [1, 1, 1, 1, 1]]\<rparr>"




section \<open>The plate: renaming a well (specified behaviour)\<close>

text \<open>
  Modelled from the spec: the plate node of \<open>iohub/ngff/nodes.py\<close>, which is not among
  the sources.  The store of a plate is the list of its groups, each a path of segments: a
  row \<open>[A]\<close>, a well \<open>[A, 1]\<close>, a position \<open>[A, 1, 0]\<close>.  The plate metadata lists the
  row names, the column names and the wells, each well by its row and column.
\<close>

record plate =
  plate_groups :: "string list list"
  plate_rows :: "string list"
  plate_columns :: "string list"
  plate_wells :: "(string \<times> string) list"

text \<open>
  Modelled from the spec: the check of a well path, missing with \<open>nodes.py\<close>.  A well
  path is \<open><row>/<col>\<close> with both names made of characters that are safe in a path
  segment.  The spec names no character set; the model takes the ASCII letters and digits,
  which excludes white space, the separator, dots and reserved characters.
\<close>

definition is_alnum :: "char \<Rightarrow> bool" where
  "is_alnum c =
     (let n = (of_char c :: nat)
      in (48 \<le> n \<and> n \<le> 57) \<or> (65 \<le> n \<and> n \<le> 90) \<or> (97 \<le> n \<and> n \<le> 122))"

definition valid_name :: "string \<Rightarrow> bool" where
  "valid_name s = (s \<noteq> [] \<and> list_all is_alnum s)"

definition well_path_parts :: "string \<Rightarrow> (string \<times> string) option" where
  "well_path_parts path =
     (case py_split ''/'' path of
        [row, col] \<Rightarrow> if valid_name row \<and> valid_name col then Some (row, col) else None
      | _ \<Rightarrow> None)"

text \<open>
  Modelled from the spec: a destination exists when the metadata lists the well or the
  store has its group.
\<close>

definition well_exists :: "plate \<Rightarrow> string \<times> string \<Rightarrow> bool" where
  "well_exists p w = (w \<in> set (plate_wells p) \<or> [fst w, snd w] \<in> set (plate_groups p))"

text \<open>
  Modelled from the spec: \<open>Plate.rename_well(src, dst)\<close>, missing with \<open>nodes.py\<close>.
  Malformed paths, a source that is not a well of the plate and a destination that exists
  are \<open>ValueError\<close>s before anything changes.  Otherwise the group and what is below it
  move to the destination, the well's metadata entry is renamed, and a destination row or
  column that is new gets an entry.  For the source row and column the model follows
  \<open>test_rename_well\<close>, which after renaming \<open>A/1\<close> to \<open>B/2\<close> beside a well \<open>C/4\<close>
  asserts that \<open>A\<close> is neither among the row groups nor among the row names of the
  metadata, and that \<open>1\<close> is not among its column names: a row or column left without
  wells loses its entry, and an emptied row its group.
\<close>

definition rename_well :: "plate \<Rightarrow> string \<Rightarrow> string \<Rightarrow> plate \<times> (error + unit)" where
  "rename_well p src dst =
     (case well_path_parts src of
        None \<Rightarrow> (p, Inl ValueError)
      | Some (old_row, old_col) \<Rightarrow>
     (case well_path_parts dst of
        None \<Rightarrow> (p, Inl ValueError)
      | Some (new_row, new_col) \<Rightarrow>
          if \<not> ((old_row, old_col) \<in> set (plate_wells p) \<and> [old_row, old_col] \<in> set (plate_groups p))
          then (p, Inl ValueError)
          else if well_exists p (new_row, new_col) then (p, Inl ValueError)
          else
            (let moved = map (\<lambda>q. if prefix [old_row, old_col] q
                                   then [new_row, new_col] @ drop 2 q else q) (plate_groups p);
                 groups1 = (if [new_row] \<in> set moved then moved else moved @ [[new_row]]);
                 wells' = map (\<lambda>w. if w = (old_row, old_col) then (new_row, new_col) else w)
                            (plate_wells p);
                 rows1 = (if new_row \<in> set (plate_rows p) then plate_rows p
                          else plate_rows p @ [new_row]);
                 columns1 = (if new_col \<in> set (plate_columns p) then plate_columns p
                             else plate_columns p @ [new_col]);
                 row_emptied = (old_row \<notin> set (map fst wells'));
                 column_emptied = (old_col \<notin> set (map snd wells'))
             in (\<lparr>plate_groups =
                    (if row_emptied then filter (\<lambda>q. \<not> prefix [old_row] q) groups1 else groups1),
                  plate_rows = (if row_emptied then filter (\<lambda>n. n \<noteq> old_row) rows1 else rows1),
                  plate_columns =
                    (if column_emptied then filter (\<lambda>n. n \<noteq> old_col) columns1 else columns1),
                  plate_wells = wells'\<rparr>,
                 Inr ()))))"

text \<open>The plate of \<open>test_rename_well\<close>: positions \<open>A/1/0\<close> and \<open>C/4/0\<close>.\<close>

definition test_plate :: plate where
  "test_plate =
     \<lparr>plate_groups = [[''A''], [''A'', ''1''], [''A'', ''1'', ''0''],
                      [''C''], [''C'', ''4''], [''C'', ''4'', ''0'']],
      plate_rows = [''A'', ''C''], plate_columns = [''1'', ''4''],
      plate_wells = [(''A'', ''1''), (''C'', ''4'')]\<rparr>"

text \<open>The plate of the test after \<open>rename_well("A/1", "B/2")\<close>.\<close>

definition renamed_plate :: plate where
  "renamed_plate = fst (rename_well test_plate ''A/1'' ''B/2'')"


section \<open>\<open>require_array\<close>: create, reuse or refuse\<close>







section \<open>\<open>write_zstack\<close>: monotonic growth\<close>
















section \<open>\<open>write_zstack\<close>: what is refused before anything is touched\<close>

text \<open>
  Claim C2, as stated, fails for data of more than three dimensions: the guard is
  \<open>len(data.shape) < 3\<close>, so four-dimensional data passes it, its last three extents
  become \<open>zyx_shape\<close>, and \<open>require_array\<close> creates the array in the empty group before
  the storage engine refuses the write of a block of the wrong shape.
\<close>

theorem write_zstack_4d_counterexample:
  "length (nd_shape example_data_4d) \<noteq> 3 \<and>
   write_zstack example_omezarr_writer example_data_4d Map.empty 0 0 None None True None
     = (example_omezarr_writer,
        [''0'' \<mapsto> ZArray (zeros [1, 1, 4, 3, 5] [4, 3, 5] ''uint16'')],
        Inl ValueError) \<and>
   [''0'' \<mapsto> ZArray (zeros [1, 1, 4, 3, 5] [4, 3, 5] ''uint16'')] \<noteq> (Map.empty :: int zgroup)"
  by (simp add: example_data_4d_def write_zstack_def require_array_def last3_def Let_def
       effective_name_def example_omezarr_writer_def tuple_get_def setitem2_def zeros_def)

text \<open>
  Claim C2, amended.  When the data has fewer than three dimensions, or the time index or
  the channel index is negative, \<open>write_zstack\<close> raises \<open>ValueError\<close> and leaves the
  writer (its metadata included) and the group exactly as they were: nothing was created,
  resized or written.
\<close>

theorem write_zstack_rejects_before_mutation:
  "length (nd_shape data) < 3 \<or> t < 0 \<or> c < 0 \<longrightarrow>
     write_zstack self data grp t c tr name am ad = (self, grp, Inl ValueError)"
  by (auto simp: write_zstack_def)

theorem write_zstack_rejects_before_mutation_witness:
  "length (nd_shape example_data_2d) < 3 \<and>
   write_zstack example_omezarr_writer example_data_2d example_group 0 0 None None True None
     = (example_omezarr_writer, example_group, Inl ValueError) \<and>
   (-1 :: int) < 0 \<and>
   write_zstack example_omezarr_writer example_data example_group (-1) 0 None None True None
     = (example_omezarr_writer, example_group, Inl ValueError) \<and>
   write_zstack example_omezarr_writer example_data example_group 0 (-1) None None True None
     = (example_omezarr_writer, example_group, Inl ValueError)"
proof -
  have h1: "length (nd_shape example_data_2d) < 3" by (simp add: example_data_2d_def)
  have h2: "(-1 :: int) < 0" by simp
  note a = write_zstack_rejects_before_mutation
  from a [of example_data_2d 0 0 example_omezarr_writer example_group None None True None] h1
  have c1: "write_zstack example_omezarr_writer example_data_2d example_group 0 0 None None True None
     = (example_omezarr_writer, example_group, Inl ValueError)" by blast
  from a [of example_data "-1" 0 example_omezarr_writer example_group None None True None] h2
  have c2: "write_zstack example_omezarr_writer example_data example_group (-1) 0 None None True None
     = (example_omezarr_writer, example_group, Inl ValueError)" by blast
  from a [of example_data 0 "-1" example_omezarr_writer example_group None None True None] h2
  have c3: "write_zstack example_omezarr_writer example_data example_group 0 (-1) None None True None
     = (example_omezarr_writer, example_group, Inl ValueError)" by blast
  show ?thesis using h1 h2 c1 c2 c3 by blast
qed

section \<open>Index 0 in \<open>require_row\<close> and \<open>require_well\<close>\<close>











section \<open>\<open>hcs_position_labels\<close>: the label formats\<close>

lemma py_split_nonempty: "py_split sep s \<noteq> []"
  by (induction sep s rule: py_split.induct) (auto split: list.splits)

lemma py_split_skip:
  "sep \<noteq> [] \<Longrightarrow> hd sep \<notin> set w \<Longrightarrow>
     py_split sep (w @ s) = (w @ hd (py_split sep s)) # tl (py_split sep s)"
proof (induction w)
  case Nil
  then show ?case using py_split_nonempty [of sep s] by simp
next
  case (Cons c w)
  then have "\<not> prefix sep (c # w @ s)" by (cases sep) auto
  with Cons show ?case by simp
qed

lemma py_split_at_sep: "sep \<noteq> [] \<Longrightarrow> py_split sep (sep @ s) = [] # py_split sep s"
  by (cases sep) auto

lemma py_split_none: "sep \<noteq> [] \<Longrightarrow> hd sep \<notin> set w \<Longrightarrow> py_split sep w = [w]"
  using py_split_skip [of sep w "[]"] by simp

lemma py_split_once:
  "sep \<noteq> [] \<Longrightarrow> hd sep \<notin> set w \<Longrightarrow> hd sep \<notin> set f \<Longrightarrow> py_split sep (w @ sep @ f) = [w, f]"
  by (simp add: py_split_skip py_split_at_sep py_split_none)

lemma py_split_no_occurrence: "\<not> sublist sep s \<Longrightarrow> py_split sep s = [s]"
proof (induction s)
  case Nil
  then show ?case by simp
next
  case (Cons c s)
  then have "\<not> prefix sep (c # s)" "\<not> sublist sep s"
    by (auto simp: sublist_Cons_right)
  with Cons show ?case by simp
qed

lemma those_map_Some: "(\<And>x. x \<in> set xs \<Longrightarrow> f x = Some (g x)) \<Longrightarrow> those (map f xs) = Some (map g xs)"
  by (induction xs) auto

lemma those_map_None: "x \<in> set xs \<Longrightarrow> f x = None \<Longrightarrow> those (map f xs) = None"
  by (induction xs) (auto split: option.splits)

lemma label_split_labels:
  "map (\<lambda>p. p ''Label'') ps = map (\<lambda>x. Some (PStr (lab x))) xs \<Longrightarrow>
     map (label_split sep) ps = map (\<lambda>x. Some (py_split sep (lab x))) xs"
proof (induction ps arbitrary: xs)
  case Nil
  then show ?case by simp
next
  case (Cons p ps)
  then obtain x xs' where xs: "xs = x # xs'" by (cases xs) auto
  with Cons.prems have "p ''Label'' = Some (PStr (lab x))"
    and "map (\<lambda>p. p ''Label'') ps = map (\<lambda>x. Some (PStr (lab x))) xs'"
    by simp_all
  with Cons.IH [of xs'] xs show ?case by (simp add: label_split_def)
qed

lemma those_Some: "those (map (\<lambda>x. Some (g x)) xs) = Some (map g xs)"
  by (rule those_map_Some) simp

lemma parse_site_ok:
  assumes l: "map (\<lambda>p. p ''Label'') ps = map (\<lambda>(w, n). Some (PStr (w @ ''-Site_'' @ n))) wns"
    and c: "\<forall>(w, n) \<in> set wns. w \<noteq> [] \<and> CHR ''-'' \<notin> set w \<and> CHR ''-'' \<notin> set n"
  shows "parse_site ps = Some (map (\<lambda>(w, n). ([hd w], tl w, n)) wns)"
proof -
  have l': "map (\<lambda>p. p ''Label'') ps = map (\<lambda>x. Some (PStr (fst x @ ''-Site_'' @ snd x))) wns"
    using l by (simp add: case_prod_beta)
  have "map (label_split ''-Site_'') ps
          = map (\<lambda>x. Some (py_split ''-Site_'' (fst x @ ''-Site_'' @ snd x))) wns"
    by (rule label_split_labels [OF l'])
  also have "\<dots> = map (\<lambda>x. Some [fst x, snd x]) wns"
  proof (intro map_cong refl)
    fix x assume "x \<in> set wns"
    with c have "CHR ''-'' \<notin> set (fst x)" "CHR ''-'' \<notin> set (snd x)" by auto
    with py_split_once [of "''-Site_''" "fst x" "snd x"]
    show "Some (py_split ''-Site_'' (fst x @ ''-Site_'' @ snd x)) = Some [fst x, snd x]"
      by simp
  qed
  finally have a: "those (map (label_split ''-Site_'') ps) = Some (map (\<lambda>x. [fst x, snd x]) wns)"
    by (simp add: those_Some)
  have b: "those (map site_tuple (map (\<lambda>x. [fst x, snd x]) wns))
             = Some (map (\<lambda>(w, n). ([hd w], tl w, n)) wns)"
    unfolding map_map
  proof (rule those_map_Some)
    fix x assume "x \<in> set wns"
    with c have "fst x \<noteq> []" by auto
    then show "(site_tuple \<circ> (\<lambda>x. [fst x, snd x])) x = Some (case x of (w, n) \<Rightarrow> ([hd w], tl w, n))"
      by (cases "fst x") (auto simp: case_prod_beta)
  qed
  show ?thesis by (simp add: parse_site_def a b [unfolded map_map])
qed

lemma digit_facts:
  assumes "py_isdigit c"
  shows "\<not> py_isspace c" "c \<noteq> CHR ''-''" "c \<noteq> CHR ''+''" "c \<noteq> CHR ''_''"
  using assms by (auto simp: py_isdigit_def py_isspace_def)

lemma digits_no_char:
  "list_all py_isdigit ds \<Longrightarrow> CHR ''-'' \<notin> set ds \<and> CHR ''_'' \<notin> set ds"
  using digit_facts(2,4) by (auto simp: list_all_iff)

lemma py_strip_digits:
  assumes "ds \<noteq> []" "list_all py_isdigit ds"
  shows "py_strip ds = ds"
proof -
  have "\<not> py_isspace (hd ds)" using assms digit_facts(1) by (cases ds) auto
  then have a: "dropWhile py_isspace ds = ds" using assms(1) by (cases ds) auto
  have "\<not> py_isspace (last ds)" using assms digit_facts(1) by (auto simp: list_all_iff)
  then have "\<not> py_isspace (hd (rev ds))" using assms(1) by (simp add: hd_rev)
  then have b: "dropWhile py_isspace (rev ds) = rev ds" using assms(1) by (cases "rev ds") auto
  show ?thesis by (simp add: py_strip_def a b)
qed

lemma py_int_digits:
  assumes "ds \<noteq> []" "list_all py_isdigit ds"
  shows "py_int ds = Some (int (digits_value ds))"
proof -
  obtain c r where ds: "ds = c # r" using assms(1) by (cases ds) auto
  then have "c \<noteq> CHR ''-''" "c \<noteq> CHR ''+''" using assms(2) digit_facts(2,3) by auto
  then show ?thesis using assms ds by (simp add: py_int_def py_strip_digits)
qed

lemma py_str_nat: "py_str (int k) = nat_digits k"
  by (simp add: py_str_def)

lemma site_split_of_pos_label:
  assumes "CHR ''-'' \<notin> set n" "CHR ''-'' \<notin> set f"
  shows "py_split ''-Site_'' (n @ ''-Pos'' @ f) = [n @ ''-Pos'' @ f]"
proof -
  have "py_split ''-Site_'' (''Pos'' @ f) = [''Pos'' @ f]"
    using assms(2) by (intro py_split_none) auto
  then have "py_split ''-Site_'' (''-Pos'' @ f) = [''-Pos'' @ f]"
    by simp
  with py_split_skip [of "''-Site_''" n "''-Pos'' @ f"] assms(1) show ?thesis by simp
qed

lemma those_map_member:
  "those (map f xs) = Some ys \<Longrightarrow> x \<in> set xs \<Longrightarrow> \<exists>y. f x = Some y \<and> y \<in> set ys"
  by (induction xs arbitrary: ys) (auto split: option.splits)

lemma two_phase_fails:
  assumes p: "p \<in> set ps"
    and t: "\<And>l. tuple [l] = None"
    and n: "\<And>l. p ''Label'' = Some (PStr l) \<Longrightarrow> py_split sep l = [l]"
  shows "(case those (map (label_split sep) ps) of None \<Rightarrow> None
          | Some labels \<Rightarrow> those (map tuple labels)) = None"
proof (cases "those (map (label_split sep) ps)")
  case None
  then show ?thesis by simp
next
  case (Some labels)
  from those_map_member [OF Some p] obtain y where y: "label_split sep p = Some y" "y \<in> set labels"
    by blast
  then obtain l where "p ''Label'' = Some (PStr l)" "y = py_split sep l"
    by (auto simp: label_split_def split: option.splits pvalue.splits)
  with n have "y = [l]" by simp
  with t have "tuple y = None" by simp
  with y(2) have "those (map tuple labels) = None" by (rule those_map_None)
  with Some show ?thesis by simp
qed

lemma parse_site_fails:
  assumes "p \<in> set ps" "\<And>l. p ''Label'' = Some (PStr l) \<Longrightarrow> py_split ''-Site_'' l = [l]"
  shows "parse_site ps = None"
  unfolding parse_site_def using assms by (intro two_phase_fails [of p]) simp_all

lemma mm_parse_pos_fails:
  assumes "p \<in> set ps" "\<And>l. p ''Label'' = Some (PStr l) \<Longrightarrow> py_split ''-Pos'' l = [l]"
  shows "mm_parse_pos ps = None"
  unfolding mm_parse_pos_def using assms by (intro two_phase_fails [of p]) simp_all

lemma rb_parse_pos_fails:
  assumes "p \<in> set ps" "\<And>l. p ''Label'' = Some (PStr l) \<Longrightarrow> py_split ''-Pos'' l = [l]"
  shows "rb_parse_pos ps = None"
  unfolding rb_parse_pos_def using assms by (intro two_phase_fails [of p]) simp_all

lemma labels_member:
  "map (\<lambda>p. p ''Label'') ps = map (\<lambda>x. Some (PStr (lab x))) xs \<Longrightarrow> p \<in> set ps \<Longrightarrow>
     \<exists>x \<in> set xs. p ''Label'' = Some (PStr (lab x))"
proof -
  assume a: "map (\<lambda>p. p ''Label'') ps = map (\<lambda>x. Some (PStr (lab x))) xs" and "p \<in> set ps"
  from a have "(\<lambda>p. p ''Label'') ` set ps = (\<lambda>x. Some (PStr (lab x))) ` set xs"
    by (metis set_map)
  with \<open>p \<in> set ps\<close> show ?thesis by blast
qed

lemma parse_site_fails_on_pos:
  assumes l: "map (\<lambda>p. p ''Label'') ps = map (\<lambda>(n, f). Some (PStr (n @ ''-Pos'' @ f))) nfs"
    and c: "\<forall>(n, f) \<in> set nfs. CHR ''-'' \<notin> set n \<and> CHR ''-'' \<notin> set f"
    and ne: "nfs \<noteq> []"
  shows "parse_site ps = None"
proof -
  have l': "map (\<lambda>p. p ''Label'') ps = map (\<lambda>x. Some (PStr (fst x @ ''-Pos'' @ snd x))) nfs"
    using l by (simp add: case_prod_beta)
  from l' ne obtain p where p: "p \<in> set ps" by (cases ps) auto
  show ?thesis
  proof (rule parse_site_fails [OF p])
    fix l assume "p ''Label'' = Some (PStr l)"
    with labels_member [OF l' p] obtain x where "x \<in> set nfs" "l = fst x @ ''-Pos'' @ snd x"
      by auto
    with c site_split_of_pos_label [of "fst x" "snd x"] show "py_split ''-Site_'' l = [l]"
      by auto
  qed
qed

lemma mm_parse_pos_ok:
  assumes l: "map (\<lambda>p. p ''Label'') ps = map (\<lambda>(n, f). Some (PStr (n @ ''-Pos'' @ f))) nfs"
    and c: "\<forall>(n, f) \<in> set nfs. CHR ''-'' \<notin> set n \<and> CHR ''-'' \<notin> set f"
  shows "mm_parse_pos ps = Some (map (\<lambda>(n, f). (''0'', n, remove_underscores f)) nfs)"
proof -
  have l': "map (\<lambda>p. p ''Label'') ps = map (\<lambda>x. Some (PStr (fst x @ ''-Pos'' @ snd x))) nfs"
    using l by (simp add: case_prod_beta)
  have "map (label_split ''-Pos'') ps
          = map (\<lambda>x. Some (py_split ''-Pos'' (fst x @ ''-Pos'' @ snd x))) nfs"
    by (rule label_split_labels [OF l'])
  also have "\<dots> = map (\<lambda>x. Some [fst x, snd x]) nfs"
  proof (intro map_cong refl)
    fix x assume "x \<in> set nfs"
    with c have "CHR ''-'' \<notin> set (fst x)" "CHR ''-'' \<notin> set (snd x)" by auto
    with py_split_once [of "''-Pos''" "fst x" "snd x"]
    show "Some (py_split ''-Pos'' (fst x @ ''-Pos'' @ snd x)) = Some [fst x, snd x]"
      by simp
  qed
  finally have a: "those (map (label_split ''-Pos'') ps) = Some (map (\<lambda>x. [fst x, snd x]) nfs)"
    by (simp add: those_Some)
  have b: "those (map mm_pos_tuple (map (\<lambda>x. [fst x, snd x]) nfs))
             = Some (map (\<lambda>(n, f). (''0'', n, remove_underscores f)) nfs)"
    unfolding map_map by (rule those_map_Some) (simp add: case_prod_beta)
  show ?thesis by (simp add: mm_parse_pos_def a b [unfolded map_map])
qed

lemma rb_parse_pos_ok:
  assumes l: "map (\<lambda>p. p ''Label'') ps
                = map (\<lambda>(n, a, b). Some (PStr (n @ ''-Pos'' @ a @ ''_'' @ b))) nabs"
    and c: "\<forall>(n, a, b) \<in> set nabs. CHR ''-'' \<notin> set n \<and> a \<noteq> [] \<and> list_all py_isdigit a \<and>
               b \<noteq> [] \<and> list_all py_isdigit b"
  shows "rb_parse_pos ps
           = Some (map (\<lambda>(n, a, b). [n, nat_digits (digits_value a), nat_digits (digits_value b)]) nabs)"
proof -
  let ?n = "\<lambda>x. fst x" and ?a = "\<lambda>x. fst (snd x)" and ?b = "\<lambda>x. snd (snd x)"
  have l': "map (\<lambda>p. p ''Label'') ps
              = map (\<lambda>x. Some (PStr (?n x @ ''-Pos'' @ ?a x @ ''_'' @ ?b x))) nabs"
    using l by (simp add: case_prod_beta)
  have "map (label_split ''-Pos'') ps
          = map (\<lambda>x. Some (py_split ''-Pos'' (?n x @ ''-Pos'' @ ?a x @ ''_'' @ ?b x))) nabs"
    by (rule label_split_labels [OF l'])
  also have "\<dots> = map (\<lambda>x. Some [?n x, ?a x @ ''_'' @ ?b x]) nabs"
  proof (intro map_cong refl)
    fix x assume "x \<in> set nabs"
    with c have "CHR ''-'' \<notin> set (?n x)" "list_all py_isdigit (?a x)" "list_all py_isdigit (?b x)"
      by auto
    then have "CHR ''-'' \<notin> set (?n x)" "CHR ''-'' \<notin> set (?a x @ ''_'' @ ?b x)"
      using digits_no_char by auto
    with py_split_once [of "''-Pos''" "?n x" "?a x @ ''_'' @ ?b x"]
    show "Some (py_split ''-Pos'' (?n x @ ''-Pos'' @ ?a x @ ''_'' @ ?b x))
            = Some [?n x, ?a x @ ''_'' @ ?b x]"
      by simp
  qed
  finally have a: "those (map (label_split ''-Pos'') ps)
                     = Some (map (\<lambda>x. [?n x, ?a x @ ''_'' @ ?b x]) nabs)"
    by (simp add: those_Some)
  have b: "those (map rb_pos_tuple (map (\<lambda>x. [?n x, ?a x @ ''_'' @ ?b x]) nabs))
             = Some (map (\<lambda>(n, a, b). [n, nat_digits (digits_value a), nat_digits (digits_value b)]) nabs)"
    unfolding map_map
  proof (rule those_map_Some)
    fix x assume "x \<in> set nabs"
    with c have d: "?a x \<noteq> []" "list_all py_isdigit (?a x)" "?b x \<noteq> []" "list_all py_isdigit (?b x)"
      by auto
    then have "CHR ''_'' \<notin> set (?a x)" "CHR ''_'' \<notin> set (?b x)"
      using digits_no_char by auto
    with py_split_once [of "''_''" "?a x" "?b x"]
    have "py_split ''_'' (?a x @ ''_'' @ ?b x) = [?a x, ?b x]" by simp
    then show "(rb_pos_tuple \<circ> (\<lambda>x. [?n x, ?a x @ ''_'' @ ?b x])) x
            = Some (case x of (n, a, b) \<Rightarrow> [n, nat_digits (digits_value a), nat_digits (digits_value b)])"
      using d by (simp add: py_int_digits py_str_nat case_prod_beta)
  qed
  show ?thesis using b by (simp add: rb_parse_pos_def a)
qed

lemma labels_nonempty:
  "map (\<lambda>p. p ''Label'') ps = map g xs \<Longrightarrow> xs \<noteq> [] \<Longrightarrow> ps \<noteq> []"
  by auto

lemma site_format:
  assumes "wns \<noteq> []"
    and "map (\<lambda>p. p ''Label'') ps = map (\<lambda>(w, n). Some (PStr (w @ ''-Site_'' @ n))) wns"
    and "\<forall>(w, n) \<in> set wns. w \<noteq> [] \<and> CHR ''-'' \<notin> set w \<and> CHR ''-'' \<notin> set n"
  shows "mm_hcs_position_labels ps = Inr (map (\<lambda>(w, n). ([hd w], tl w, n)) wns)"
    and "rb_hcs_position_labels ps = Inr (map (\<lambda>(w, n). [[hd w], tl w, n]) wns)"
  using labels_nonempty [OF assms(2,1)] parse_site_ok [OF assms(2,3)]
  by (simp_all add: mm_hcs_position_labels_def rb_hcs_position_labels_def case_prod_beta comp_def)

lemma mm_pos_format:
  assumes "nfs \<noteq> []"
    and "map (\<lambda>p. p ''Label'') ps = map (\<lambda>(n, f). Some (PStr (n @ ''-Pos'' @ f))) nfs"
    and "\<forall>(n, f) \<in> set nfs. CHR ''-'' \<notin> set n \<and> CHR ''-'' \<notin> set f"
  shows "mm_hcs_position_labels ps = Inr (map (\<lambda>(n, f). (''0'', n, remove_underscores f)) nfs)"
  using labels_nonempty [OF assms(2,1)] parse_site_fails_on_pos [OF assms(2,3,1)]
    mm_parse_pos_ok [OF assms(2,3)]
  by (simp add: mm_hcs_position_labels_def)

lemma rb_pos_format:
  assumes ne: "nabs \<noteq> []"
    and l: "map (\<lambda>p. p ''Label'') ps
              = map (\<lambda>(n, a, b). Some (PStr (n @ ''-Pos'' @ a @ ''_'' @ b))) nabs"
    and c: "\<forall>(n, a, b) \<in> set nabs. CHR ''-'' \<notin> set n \<and> a \<noteq> [] \<and> list_all py_isdigit a \<and>
               b \<noteq> [] \<and> list_all py_isdigit b"
  shows "rb_hcs_position_labels ps
           = Inr (map (\<lambda>(n, a, b). [n, nat_digits (digits_value a), nat_digits (digits_value b)]) nabs)"
proof -
  let ?nfs = "map (\<lambda>(n, a, b). (n, a @ ''_'' @ b)) nabs"
  have l': "map (\<lambda>p. p ''Label'') ps = map (\<lambda>(n, f). Some (PStr (n @ ''-Pos'' @ f))) ?nfs"
    using l by (simp add: case_prod_beta comp_def)
  have c': "\<forall>(n, f) \<in> set ?nfs. CHR ''-'' \<notin> set n \<and> CHR ''-'' \<notin> set f"
    using c digits_no_char by fastforce
  have "?nfs \<noteq> []" using ne by simp
  from parse_site_fails_on_pos [OF l' c' this] labels_nonempty [OF l ne] rb_parse_pos_ok [OF l c]
  show ?thesis by (simp add: rb_hcs_position_labels_def)
qed

lemma other_format:
  assumes p: "p \<in> set ps"
    and n: "\<forall>l. p ''Label'' = Some (PStr l) \<longrightarrow> \<not> sublist ''-Site_'' l \<and> \<not> sublist ''-Pos'' l"
  shows "mm_hcs_position_labels ps = Inl (BadLabelFormat (map (\<lambda>p. p ''Label'') ps))"
    and "rb_hcs_position_labels ps = Inl (BadLabelFormat (map (\<lambda>p. p ''Label'') ps))"
proof -
  have ne: "ps \<noteq> []" using p by auto
  have a: "parse_site ps = None"
    using n by (intro parse_site_fails [OF p] py_split_no_occurrence) simp
  have b: "mm_parse_pos ps = None"
    using n by (intro mm_parse_pos_fails [OF p] py_split_no_occurrence) simp
  have c: "rb_parse_pos ps = None"
    using n by (intro rb_parse_pos_fails [OF p] py_split_no_occurrence) simp
  show "mm_hcs_position_labels ps = Inl (BadLabelFormat (map (\<lambda>p. p ''Label'') ps))"
    using ne a b by (simp add: mm_hcs_position_labels_def)
  show "rb_hcs_position_labels ps = Inl (BadLabelFormat (map (\<lambda>p. p ''Label'') ps))"
    using ne a c by (simp add: rb_hcs_position_labels_def)
qed

text \<open>
  Claim C3, as stated, fails in three ways.  A label with a row of two letters is cut
  after its first character, not after its letters: \<open>AB12-Site_3\<close> gives
  \<open>(A, B12, 3)\<close>.  \<open>ReaderBase\<close> maps \<open>1-Pos000_001\<close> to \<open>(1, 0, 1)\<close>, the row and the
  two numbers without leading zeros, not to \<open>(0, 1, 000001)\<close>.  And a format is tried on
  the whole list, so a list that mixes the two formats is refused, with every label in
  the message.
\<close>

theorem hcs_position_labels_counterexample:
  "mm_hcs_position_labels [labelled ''AB12-Site_3''] = Inr [(''A'', ''B12'', ''3'')] \<and>
   mm_hcs_position_labels [labelled ''AB12-Site_3''] \<noteq> Inr [(''AB'', ''12'', ''3'')] \<and>
   rb_hcs_position_labels [labelled ''1-Pos000_001''] = Inr [[''1'', ''0'', ''1'']] \<and>
   rb_hcs_position_labels [labelled ''1-Pos000_001''] \<noteq> Inr [[''0'', ''1'', ''000001'']] \<and>
   mm_hcs_position_labels [labelled ''A1-Site_0'', labelled ''1-Pos000_000'']
     = Inl (BadLabelFormat [Some (PStr ''A1-Site_0''), Some (PStr ''1-Pos000_000'')])"
proof -
  have a: "mm_hcs_position_labels [labelled ''AB12-Site_3''] = Inr [(''A'', ''B12'', ''3'')]"
    by code_simp
  have b: "rb_hcs_position_labels [labelled ''1-Pos000_001''] = Inr [[''1'', ''0'', ''1'']]"
    by code_simp
  have c: "mm_hcs_position_labels [labelled ''A1-Site_0'', labelled ''1-Pos000_000'']
     = Inl (BadLabelFormat [Some (PStr ''A1-Site_0''), Some (PStr ''1-Pos000_000'')])"
    by (simp add: mm_hcs_position_labels_def parse_site_def mm_parse_pos_def label_split_def
          labelled_def)
  show ?thesis unfolding a b c by simp
qed

text \<open>
  Claim C3, amended.  An empty list of stage positions is a \<open>ValueError\<close>.  When every
  label is \<open>w-Site_n\<close> with a non-empty \<open>w\<close> and no other hyphen, both parsers map each
  label to (first character of \<open>w\<close>, rest of \<open>w\<close>, \<open>n\<close>).  When every label is
  \<open>n-Posf\<close> with no other hyphen, \<open>MicroManagerFOVMapping\<close> maps each to
  \<open>("0", n, f without underscores)\<close>; when moreover \<open>f\<close> is \<open>a_b\<close> with digit strings
  \<open>a\<close> and \<open>b\<close>, \<open>ReaderBase\<close> maps each to \<open>(n, str(int(a)), str(int(b)))\<close>.  When some
  position has no string label, or a label in which neither \<open>-Site_\<close> nor \<open>-Pos\<close>
  occurs, both parsers raise the \<open>ValueError\<close> whose message lists the labels of all
  positions.
\<close>

theorem hcs_position_labels_formats:
  "mm_hcs_position_labels [] = Inl NoStagePositions \<and>
   rb_hcs_position_labels [] = Inl NoStagePositions \<and>
   (wns \<noteq> [] \<and>
    map (\<lambda>p. p ''Label'') psS = map (\<lambda>(w, n). Some (PStr (w @ ''-Site_'' @ n))) wns \<and>
    (\<forall>(w, n) \<in> set wns. w \<noteq> [] \<and> CHR ''-'' \<notin> set w \<and> CHR ''-'' \<notin> set n) \<longrightarrow>
      mm_hcs_position_labels psS = Inr (map (\<lambda>(w, n). ([hd w], tl w, n)) wns) \<and>
      rb_hcs_position_labels psS = Inr (map (\<lambda>(w, n). [[hd w], tl w, n]) wns)) \<and>
   (nfs \<noteq> [] \<and>
    map (\<lambda>p. p ''Label'') psP = map (\<lambda>(n, f). Some (PStr (n @ ''-Pos'' @ f))) nfs \<and>
    (\<forall>(n, f) \<in> set nfs. CHR ''-'' \<notin> set n \<and> CHR ''-'' \<notin> set f) \<longrightarrow>
      mm_hcs_position_labels psP = Inr (map (\<lambda>(n, f). (''0'', n, remove_underscores f)) nfs)) \<and>
   (nabs \<noteq> [] \<and>
    map (\<lambda>p. p ''Label'') psR
      = map (\<lambda>(n, a, b). Some (PStr (n @ ''-Pos'' @ a @ ''_'' @ b))) nabs \<and>
    (\<forall>(n, a, b) \<in> set nabs. CHR ''-'' \<notin> set n \<and> a \<noteq> [] \<and> list_all py_isdigit a \<and>
         b \<noteq> [] \<and> list_all py_isdigit b) \<longrightarrow>
      rb_hcs_position_labels psR
        = Inr (map (\<lambda>(n, a, b). [n, nat_digits (digits_value a), nat_digits (digits_value b)]) nabs)) \<and>
   (p \<in> set psE \<and>
    (\<forall>l. p ''Label'' = Some (PStr l) \<longrightarrow> \<not> sublist ''-Site_'' l \<and> \<not> sublist ''-Pos'' l) \<longrightarrow>
      mm_hcs_position_labels psE = Inl (BadLabelFormat (map (\<lambda>p. p ''Label'') psE)) \<and>
      rb_hcs_position_labels psE = Inl (BadLabelFormat (map (\<lambda>p. p ''Label'') psE)))"
proof (intro conjI impI; (elim conjE)?)
  show "mm_hcs_position_labels [] = Inl NoStagePositions"
    by (simp add: mm_hcs_position_labels_def)
  show "rb_hcs_position_labels [] = Inl NoStagePositions"
    by (simp add: rb_hcs_position_labels_def)
next
  assume "wns \<noteq> []"
    "map (\<lambda>p. p ''Label'') psS = map (\<lambda>(w, n). Some (PStr (w @ ''-Site_'' @ n))) wns"
    "\<forall>(w, n) \<in> set wns. w \<noteq> [] \<and> CHR ''-'' \<notin> set w \<and> CHR ''-'' \<notin> set n"
  then show "mm_hcs_position_labels psS = Inr (map (\<lambda>(w, n). ([hd w], tl w, n)) wns)"
    by (rule site_format(1))
next
  assume "wns \<noteq> []"
    "map (\<lambda>p. p ''Label'') psS = map (\<lambda>(w, n). Some (PStr (w @ ''-Site_'' @ n))) wns"
    "\<forall>(w, n) \<in> set wns. w \<noteq> [] \<and> CHR ''-'' \<notin> set w \<and> CHR ''-'' \<notin> set n"
  then show "rb_hcs_position_labels psS = Inr (map (\<lambda>(w, n). [[hd w], tl w, n]) wns)"
    by (rule site_format(2))
next
  assume "nfs \<noteq> []"
    "map (\<lambda>p. p ''Label'') psP = map (\<lambda>(n, f). Some (PStr (n @ ''-Pos'' @ f))) nfs"
    "\<forall>(n, f) \<in> set nfs. CHR ''-'' \<notin> set n \<and> CHR ''-'' \<notin> set f"
  then show "mm_hcs_position_labels psP = Inr (map (\<lambda>(n, f). (''0'', n, remove_underscores f)) nfs)"
    by (rule mm_pos_format)
next
  assume "nabs \<noteq> []"
    "map (\<lambda>p. p ''Label'') psR
      = map (\<lambda>(n, a, b). Some (PStr (n @ ''-Pos'' @ a @ ''_'' @ b))) nabs"
    "\<forall>(n, a, b) \<in> set nabs. CHR ''-'' \<notin> set n \<and> a \<noteq> [] \<and> list_all py_isdigit a \<and>
         b \<noteq> [] \<and> list_all py_isdigit b"
  then show "rb_hcs_position_labels psR
        = Inr (map (\<lambda>(n, a, b). [n, nat_digits (digits_value a), nat_digits (digits_value b)]) nabs)"
    by (rule rb_pos_format)
next
  assume "p \<in> set psE"
    "\<forall>l. p ''Label'' = Some (PStr l) \<longrightarrow> \<not> sublist ''-Site_'' l \<and> \<not> sublist ''-Pos'' l"
  then show "mm_hcs_position_labels psE = Inl (BadLabelFormat (map (\<lambda>p. p ''Label'') psE))"
    by (rule other_format(1))
next
  assume "p \<in> set psE"
    "\<forall>l. p ''Label'' = Some (PStr l) \<longrightarrow> \<not> sublist ''-Site_'' l \<and> \<not> sublist ''-Pos'' l"
  then show "rb_hcs_position_labels psE = Inl (BadLabelFormat (map (\<lambda>p. p ''Label'') psE))"
    by (rule other_format(2))
qed

theorem hcs_position_labels_formats_witness:
  "[(''A1'', ''0''), (''H12'', ''1'')] \<noteq> [] \<and>
   CHR ''-'' \<notin> set ''A1'' \<and> CHR ''-'' \<notin> set ''H12'' \<and>
   mm_hcs_position_labels [labelled ''A1-Site_0'', labelled ''H12-Site_1'']
     = Inr [(''A'', ''1'', ''0''), (''H'', ''12'', ''1'')] \<and>
   rb_hcs_position_labels [labelled ''A1-Site_0'', labelled ''H12-Site_1'']
     = Inr [[''A'', ''1'', ''0''], [''H'', ''12'', ''1'']] \<and>
   mm_hcs_position_labels [labelled ''1-Pos000_000''] = Inr [(''0'', ''1'', ''000000'')] \<and>
   list_all py_isdigit ''001'' \<and>
   rb_hcs_position_labels [labelled ''1-Pos000_001''] = Inr [[''1'', ''0'', ''1'']] \<and>
   labelled ''Pos7'' \<in> set [labelled ''A1-Site_0'', labelled ''Pos7''] \<and>
   \<not> sublist ''-Site_'' ''Pos7'' \<and> \<not> sublist ''-Pos'' ''Pos7'' \<and>
   mm_hcs_position_labels [labelled ''A1-Site_0'', labelled ''Pos7'']
     = Inl (BadLabelFormat [Some (PStr ''A1-Site_0''), Some (PStr ''Pos7'')])"
proof -
  note t = hcs_position_labels_formats [where wns = "[(''A1'', ''0''), (''H12'', ''1'')]"
      and psS = "[labelled ''A1-Site_0'', labelled ''H12-Site_1'']"
      and nfs = "[(''1'', ''000_000'')]" and psP = "[labelled ''1-Pos000_000'']"
      and nabs = "[(''1'', ''000'', ''001'')]" and psR = "[labelled ''1-Pos000_001'']"
      and p = "labelled ''Pos7''" and psE = "[labelled ''A1-Site_0'', labelled ''Pos7'']"]
  have s1: "\<not> sublist ''-Site_'' ''Pos7''"
  proof
    assume "sublist ''-Site_'' ''Pos7''"
    then have "set ''-Site_'' \<subseteq> set ''Pos7''" by (rule set_mono_sublist)
    then show False by simp
  qed
  have s2: "\<not> sublist ''-Pos'' ''Pos7''"
  proof
    assume "sublist ''-Pos'' ''Pos7''"
    then have "set ''-Pos'' \<subseteq> set ''Pos7''" by (rule set_mono_sublist)
    then show False by simp
  qed
  have q: "\<forall>(w, n) \<in> set [(''A1'', ''0''), (''H12'', ''1'')]. w \<noteq> [] \<and> CHR ''-'' \<notin> set w \<and> CHR ''-'' \<notin> set n"
    by simp
  have d: "list_all py_isdigit ''001''" "list_all py_isdigit ''000''"
    by (simp_all add: py_isdigit_def)
  have hS: "[(''A1'', ''0''), (''H12'', ''1'')] \<noteq> [] \<and>
    map (\<lambda>p. p ''Label'') [labelled ''A1-Site_0'', labelled ''H12-Site_1'']
      = map (\<lambda>(w, n). Some (PStr (w @ ''-Site_'' @ n))) [(''A1'', ''0''), (''H12'', ''1'')] \<and>
    (\<forall>(w, n) \<in> set [(''A1'', ''0''), (''H12'', ''1'')]. w \<noteq> [] \<and> CHR ''-'' \<notin> set w \<and> CHR ''-'' \<notin> set n)"
    by (simp add: labelled_def)
  have hP: "[(''1'', ''000_000'')] \<noteq> [] \<and>
    map (\<lambda>p. p ''Label'') [labelled ''1-Pos000_000'']
      = map (\<lambda>(n, f). Some (PStr (n @ ''-Pos'' @ f))) [(''1'', ''000_000'')] \<and>
    (\<forall>(n, f) \<in> set [(''1'', ''000_000'')]. CHR ''-'' \<notin> set n \<and> CHR ''-'' \<notin> set f)"
    by (simp add: labelled_def)
  have hR: "[(''1'', ''000'', ''001'')] \<noteq> [] \<and>
    map (\<lambda>p. p ''Label'') [labelled ''1-Pos000_001'']
      = map (\<lambda>(n, a, b). Some (PStr (n @ ''-Pos'' @ a @ ''_'' @ b))) [(''1'', ''000'', ''001'')] \<and>
    (\<forall>(n, a, b) \<in> set [(''1'', ''000'', ''001'')]. CHR ''-'' \<notin> set n \<and> a \<noteq> [] \<and>
        list_all py_isdigit a \<and> b \<noteq> [] \<and> list_all py_isdigit b)"
    using d by (simp add: labelled_def)
  have m: "labelled ''Pos7'' \<in> set [labelled ''A1-Site_0'', labelled ''Pos7'']" by simp
  have hE: "labelled ''Pos7'' \<in> set [labelled ''A1-Site_0'', labelled ''Pos7''] \<and>
    (\<forall>l. labelled ''Pos7'' ''Label'' = Some (PStr l) \<longrightarrow>
         \<not> sublist ''-Site_'' l \<and> \<not> sublist ''-Pos'' l)"
    using s1 s2 by (simp add: labelled_def)
  have v: "nat_digits (digits_value ''000'') = ''0''" "nat_digits (digits_value ''001'') = ''1''"
    by code_simp+
  from t [THEN conjunct2, THEN conjunct2, THEN conjunct1, THEN mp, OF hS]
  have cS: "mm_hcs_position_labels [labelled ''A1-Site_0'', labelled ''H12-Site_1'']
     = Inr [(''A'', ''1'', ''0''), (''H'', ''12'', ''1'')]"
    "rb_hcs_position_labels [labelled ''A1-Site_0'', labelled ''H12-Site_1'']
     = Inr [[''A'', ''1'', ''0''], [''H'', ''12'', ''1'']]"
    by simp_all
  from t [THEN conjunct2, THEN conjunct2, THEN conjunct2, THEN conjunct1, THEN mp, OF hP]
  have cP: "mm_hcs_position_labels [labelled ''1-Pos000_000''] = Inr [(''0'', ''1'', ''000000'')]"
    by (simp add: remove_underscores_def)
  from t [THEN conjunct2, THEN conjunct2, THEN conjunct2, THEN conjunct2, THEN conjunct1, THEN mp, OF hR]
  have cR: "rb_hcs_position_labels [labelled ''1-Pos000_001''] = Inr [[''1'', ''0'', ''1'']]"
    by (simp add: v)
  from t [THEN conjunct2, THEN conjunct2, THEN conjunct2, THEN conjunct2, THEN conjunct2, THEN mp, OF hE]
  have cE: "mm_hcs_position_labels [labelled ''A1-Site_0'', labelled ''Pos7'']
     = Inl (BadLabelFormat [Some (PStr ''A1-Site_0''), Some (PStr ''Pos7'')])"
    by (simp add: labelled_def)
  show ?thesis by (intro conjI cS cP cR cE d(1) m s1 s2) simp_all
qed

section \<open>Effective scale and translation\<close>

lemma scale_vectors_append: "scale_vectors (a @ b) = scale_vectors a @ scale_vectors b"
  by (induction a rule: scale_vectors.induct) auto

lemma translation_vectors_append:
  "translation_vectors (a @ b) = translation_vectors a @ translation_vectors b"
  by (induction a rule: translation_vectors.induct) auto

lemma foldl_apply_scale:
  "\<forall>t \<in> set ts. sized n t \<Longrightarrow> length acc = n \<Longrightarrow> i < n \<Longrightarrow>
     length (foldl apply_scale acc ts) = n \<and>
     foldl apply_scale acc ts ! i = acc ! i * prod_list (map (\<lambda>s. s ! i) (scale_vectors ts))"
proof (induction ts arbitrary: acc)
  case Nil
  then show ?case by simp
next
  case (Cons t ts)
  show ?case
  proof (cases t)
    case (Scale s)
    with Cons.prems have l: "length s = n" by simp
    have "length (map2 (*) acc s) = n" using l Cons.prems by simp
    moreover have "map2 (*) acc s ! i = acc ! i * s ! i" using l Cons.prems by simp
    ultimately show ?thesis
      using Cons.IH [of "map2 (*) acc s"] Cons.prems Scale by (simp add: mult.assoc)
  qed (use Cons in auto)
qed

lemma foldl_apply_translation:
  "\<forall>t \<in> set ts. sized n t \<Longrightarrow> length acc = n \<Longrightarrow> i < n \<Longrightarrow>
     length (foldl apply_translation acc ts) = n \<and>
     foldl apply_translation acc ts ! i = acc ! i + sum_list (map (\<lambda>v. v ! i) (translation_vectors ts))"
proof (induction ts arbitrary: acc)
  case Nil
  then show ?case by simp
next
  case (Cons t ts)
  show ?case
  proof (cases t)
    case (Translation v)
    with Cons.prems have l: "length v = n" by simp
    have "length (map2 (+) acc v) = n" using l Cons.prems by simp
    moreover have "map2 (+) acc v ! i = acc ! i + v ! i" using l Cons.prems by simp
    ultimately show ?thesis
      using Cons.IH [of "map2 (+) acc v"] Cons.prems Translation by (simp add: add.assoc)
  qed (use Cons in auto)
qed

text \<open>
  Claim C4, as stated, fails on its example: a FOV-level scale of 2 with a dataset-level
  translation of 1 gives the effective scale 2 and the effective translation 1, not 2.
  Translations add; they are not multiplied by the composed scale.
\<close>

theorem effective_translation_counterexample:
  "get_effective_scale (with_transforms ''0'' [Scale [2, 2, 2, 2, 2]] [Translation [1, 1, 1, 1, 1]]) ''0''
     = Inr [2, 2, 2, 2, 2] \<and>
   get_effective_translation (with_transforms ''0'' [Scale [2, 2, 2, 2, 2]] [Translation [1, 1, 1, 1, 1]]) ''0''
     = Inr [1, 1, 1, 1, 1] \<and>
   get_effective_translation (with_transforms ''0'' [Scale [2, 2, 2, 2, 2]] [Translation [1, 1, 1, 1, 1]]) ''0''
     \<noteq> Inr [2, 2, 2, 2, 2]"
  by (simp add: get_effective_scale_def get_effective_translation_def with_transforms_def
        set_transform_def new_fov_def find_dataset_def)

text \<open>
  Claim C4, amended.  For a dataset of the node and pipelines sized to the axes, the
  effective scale on each axis is the product of the scale factors of both pipelines on
  that axis, and the effective translation on each axis is the sum of the translations of
  both pipelines on that axis.
\<close>

theorem effective_transform_composition:
  "find_dataset f img = Some d \<and>
   (\<forall>t \<in> set (fov_transform f @ coordinate_transformations d). sized (length (fov_axes f)) t) \<and>
   i < length (fov_axes f) \<longrightarrow>
     (\<exists>sc tr. get_effective_scale f img = Inr sc \<and> get_effective_translation f img = Inr tr \<and>
        length sc = length (fov_axes f) \<and> length tr = length (fov_axes f) \<and>
        sc ! i = prod_list (map (\<lambda>s. s ! i)
                   (scale_vectors (fov_transform f) @ scale_vectors (coordinate_transformations d))) \<and>
        tr ! i = sum_list (map (\<lambda>v. v ! i)
                   (translation_vectors (fov_transform f) @
                    translation_vectors (coordinate_transformations d))))"
proof (intro impI, elim conjE)
  let ?n = "length (fov_axes f)" and ?ts = "fov_transform f @ coordinate_transformations d"
  assume d: "find_dataset f img = Some d" and s: "\<forall>t \<in> set ?ts. sized ?n t" and i: "i < ?n"
  have a: "length (foldl apply_scale (replicate ?n 1) ?ts) = ?n \<and>
        foldl apply_scale (replicate ?n 1) ?ts ! i
          = replicate ?n 1 ! i * prod_list (map (\<lambda>s. s ! i) (scale_vectors ?ts))"
    by (rule foldl_apply_scale [OF s _ i]) simp
  have b: "length (foldl apply_translation (replicate ?n 0) ?ts) = ?n \<and>
        foldl apply_translation (replicate ?n 0) ?ts ! i
          = replicate ?n 0 ! i + sum_list (map (\<lambda>v. v ! i) (translation_vectors ?ts))"
    by (rule foldl_apply_translation [OF s _ i]) simp
  show "\<exists>sc tr. get_effective_scale f img = Inr sc \<and> get_effective_translation f img = Inr tr \<and>
        length sc = ?n \<and> length tr = ?n \<and>
        sc ! i = prod_list (map (\<lambda>s. s ! i)
                   (scale_vectors (fov_transform f) @ scale_vectors (coordinate_transformations d))) \<and>
        tr ! i = sum_list (map (\<lambda>v. v ! i)
                   (translation_vectors (fov_transform f) @
                    translation_vectors (coordinate_transformations d)))"
    apply (rule exI [of _ "foldl apply_scale (replicate ?n 1) ?ts"])
    apply (rule exI [of _ "foldl apply_translation (replicate ?n 0) ?ts"])
    using a b d i
    by (simp add: get_effective_scale_def get_effective_translation_def scale_vectors_append
          translation_vectors_append del: foldl_append)
qed

theorem effective_transform_composition_witness:
  "find_dataset table_fov ''0'' = Some table_dataset \<and>
   (2::nat) < length (fov_axes table_fov) \<and>
   (\<exists>sc tr. get_effective_scale table_fov ''0'' = Inr sc \<and>
       get_effective_translation table_fov ''0'' = Inr tr \<and> sc ! 2 = 2 * 2 \<and> tr ! 2 = 1 + 1) \<and>
   get_effective_scale table_fov ''0'' = Inr [4, 4, 4, 4, 4] \<and>
   get_effective_translation table_fov ''0'' = Inr [2, 2, 2, 2, 2] \<and>
   get_effective_scale (with_transforms ''0'' [Identity] []) ''0'' = Inr [1, 1, 1, 1, 1] \<and>
   get_effective_translation (with_transforms ''0'' [Identity] []) ''0'' = Inr [0, 0, 0, 0, 0] \<and>
   get_effective_scale (with_transforms ''0'' [Scale [1, 2, 3, 4, 5]] []) ''0'' = Inr [1, 2, 3, 4, 5] \<and>
   get_effective_translation (with_transforms ''0'' [Scale [1, 2, 3, 4, 5]] []) ''0'' = Inr [0, 0, 0, 0, 0] \<and>
   get_effective_scale (with_transforms ''0'' [Translation [1, 2, 3, 4, 5]] []) ''0'' = Inr [1, 1, 1, 1, 1] \<and>
   get_effective_translation (with_transforms ''0'' [Translation [1, 2, 3, 4, 5]] []) ''0''
     = Inr [1, 2, 3, 4, 5]"
proof -
  note defs = get_effective_scale_def get_effective_translation_def with_transforms_def
    set_transform_def new_fov_def find_dataset_def table_fov_def table_dataset_def
  have h1: "find_dataset table_fov ''0'' = Some table_dataset" by (simp add: defs)
  have h2: "\<forall>t \<in> set (fov_transform table_fov @ coordinate_transformations table_dataset).
              sized (length (fov_axes table_fov)) t"
    by (simp add: defs)
  have h3: "(2::nat) < length (fov_axes table_fov)" by (simp add: defs)
  have v: "scale_vectors (fov_transform table_fov) @ scale_vectors (coordinate_transformations table_dataset)
             = [[2, 2, 2, 2, 2], [2, 2, 2, 2, 2]]"
      "translation_vectors (fov_transform table_fov) @
         translation_vectors (coordinate_transformations table_dataset)
             = [[1, 1, 1, 1, 1], [1, 1, 1, 1, 1]]"
    by (simp_all add: defs)
  from effective_transform_composition [of table_fov "''0''" table_dataset 2] h1 h2 h3
  have "\<exists>sc tr. get_effective_scale table_fov ''0'' = Inr sc \<and>
       get_effective_translation table_fov ''0'' = Inr tr \<and>
       length sc = length (fov_axes table_fov) \<and> length tr = length (fov_axes table_fov) \<and>
       sc ! 2 = prod_list (map (\<lambda>s. s ! 2)
                   (scale_vectors (fov_transform table_fov) @
                    scale_vectors (coordinate_transformations table_dataset))) \<and>
       tr ! 2 = sum_list (map (\<lambda>v. v ! 2)
                   (translation_vectors (fov_transform table_fov) @
                    translation_vectors (coordinate_transformations table_dataset)))"
    by blast
  then have c: "\<exists>sc tr. get_effective_scale table_fov ''0'' = Inr sc \<and>
       get_effective_translation table_fov ''0'' = Inr tr \<and> sc ! 2 = 2 * 2 \<and> tr ! 2 = 1 + 1"
    unfolding v by auto
  have r: "get_effective_scale table_fov ''0'' = Inr [4, 4, 4, 4, 4]"
    "get_effective_translation table_fov ''0'' = Inr [2, 2, 2, 2, 2]"
    "get_effective_scale (with_transforms ''0'' [Identity] []) ''0'' = Inr [1, 1, 1, 1, 1]"
    "get_effective_translation (with_transforms ''0'' [Identity] []) ''0'' = Inr [0, 0, 0, 0, 0]"
    "get_effective_scale (with_transforms ''0'' [Scale [1, 2, 3, 4, 5]] []) ''0'' = Inr [1, 2, 3, 4, 5]"
    "get_effective_translation (with_transforms ''0'' [Scale [1, 2, 3, 4, 5]] []) ''0'' = Inr [0, 0, 0, 0, 0]"
    "get_effective_scale (with_transforms ''0'' [Translation [1, 2, 3, 4, 5]] []) ''0'' = Inr [1, 1, 1, 1, 1]"
    "get_effective_translation (with_transforms ''0'' [Translation [1, 2, 3, 4, 5]] []) ''0''
       = Inr [1, 2, 3, 4, 5]"
    by (simp_all add: defs)
  show ?thesis by (intro conjI h1 h3 c r)
qed

section \<open>\<open>set_scale\<close>: one axis, with an audit entry\<close>

















section \<open>\<open>rename_well\<close>: refusals\<close>

lemma rename_well_failure_kind:
  "snd (rename_well p src dst) \<noteq> Inr () \<Longrightarrow> rename_well p src dst = (p, Inl ValueError)"
  by (auto simp: rename_well_def Let_def split: option.splits if_splits)

lemma rename_well_malformed:
  "well_path_parts src = None \<or> well_path_parts dst = None \<Longrightarrow>
     rename_well p src dst = (p, Inl ValueError)"
  by (auto simp: rename_well_def split: option.splits)

lemma rename_well_no_source:
  "well_path_parts src = Some s \<Longrightarrow>
   \<not> (s \<in> set (plate_wells p) \<and> [fst s, snd s] \<in> set (plate_groups p)) \<Longrightarrow>
     rename_well p src dst = (p, Inl ValueError)"
  by (cases s) (auto simp: rename_well_def split: option.splits)

lemma rename_well_occupied:
  "well_path_parts dst = Some t \<Longrightarrow> well_exists p t \<Longrightarrow>
     rename_well p src dst = (p, Inl ValueError)"
  by (cases t) (auto simp: rename_well_def split: option.splits)

lemma py_split_chars: "set s \<subseteq> set (concat (py_split sep s)) \<union> set sep"
proof (induction sep s rule: py_split.induct)
  case (1 sep)
  then show ?case by simp
next
  case (2 sep c cs)
  show ?case
  proof (cases "sep \<noteq> [] \<and> prefix sep (c # cs)")
    case True
    then obtain r where r: "c # cs = sep @ r" by (auto simp: prefix_def)
    with True have d: "drop (length sep - 1) cs = r"
      by (cases sep) auto
    have a: "py_split sep (c # cs) = [] # py_split sep r" using True d by simp
    have b: "set (c # cs) = set sep \<union> set r" unfolding r by simp
    have "set r \<subseteq> set (concat (py_split sep r)) \<union> set sep" using 2(1) True d by simp
    then show ?thesis unfolding a b by auto
  next
    case False
    with 2(2) py_split_nonempty [of sep cs] show ?thesis
      by (cases "py_split sep cs") auto
  qed
qed

lemma well_path_parts_bad_char:
  assumes "c \<in> set path" "c \<noteq> CHR ''/''" "\<not> is_alnum c"
  shows "well_path_parts path = None"
proof (rule ccontr)
  assume "well_path_parts path \<noteq> None"
  then obtain row col where s: "py_split ''/'' path = [row, col]"
    and v: "valid_name row" "valid_name col"
    by (auto simp: well_path_parts_def split: list.splits if_splits)
  from py_split_chars [of path "''/''"] s assms(1,2) have "c \<in> set row \<union> set col" by auto
  with v assms(3) show False by (auto simp: valid_name_def list_all_iff)
qed

text \<open>
  Claim C6.  \<open>rename_well\<close> raises \<open>ValueError\<close> and leaves the plate (groups, row and
  column lists, well list) as it was when a path is malformed, when the source is not a
  well of the plate, and when the destination exists.  A path with a character that is
  neither the separator nor a letter or digit, such as a leading space or a question
  mark, is malformed.  Whenever \<open>rename_well\<close> does not succeed, it has raised
  \<open>ValueError\<close> and changed nothing.
\<close>

theorem rename_well_failures:
  "(well_path_parts src = None \<or> well_path_parts dst = None \<longrightarrow>
      rename_well p src dst = (p, Inl ValueError)) \<and>
   (well_path_parts src = Some s \<and>
    \<not> (s \<in> set (plate_wells p) \<and> [fst s, snd s] \<in> set (plate_groups p)) \<longrightarrow>
      rename_well p src dst = (p, Inl ValueError)) \<and>
   (well_path_parts dst = Some t \<and> well_exists p t \<longrightarrow>
      rename_well p src dst = (p, Inl ValueError)) \<and>
   (c \<in> set path \<and> c \<noteq> CHR ''/'' \<and> \<not> is_alnum c \<longrightarrow> well_path_parts path = None) \<and>
   (snd (rename_well p src dst) \<noteq> Inr () \<longrightarrow> rename_well p src dst = (p, Inl ValueError))"
  using rename_well_malformed [of src dst p] rename_well_no_source [of src s p dst]
    rename_well_occupied [of dst t p src] well_path_parts_bad_char [of c path]
    rename_well_failure_kind [of p src dst]
  by blast

theorem rename_well_failures_witness:
  "well_path_parts ''C/4'' = Some (''C'', ''4'') \<and> well_exists renamed_plate (''C'', ''4'') \<and>
   rename_well renamed_plate ''B/2'' ''C/4'' = (renamed_plate, Inl ValueError) \<and>
   well_path_parts ''Q/1'' = Some (''Q'', ''1'') \<and>
   (''Q'', ''1'') \<notin> set (plate_wells renamed_plate) \<and>
   rename_well renamed_plate ''Q/1'' ''Q/2'' = (renamed_plate, Inl ValueError) \<and>
   CHR '' '' \<in> set '' A/1'' \<and> \<not> is_alnum CHR '' '' \<and>
   well_path_parts '' A/1'' = None \<and>
   rename_well renamed_plate ''B/2'' '' A/1'' = (renamed_plate, Inl ValueError) \<and>
   CHR ''?'' \<in> set ''A/?'' \<and> \<not> is_alnum CHR ''?'' \<and>
   well_path_parts ''A/?'' = None \<and>
   rename_well renamed_plate ''B/2'' ''A/?'' = (renamed_plate, Inl ValueError)"
proof -
  have h1: "well_path_parts ''C/4'' = Some (''C'', ''4'')" by code_simp
  have h2: "well_exists renamed_plate (''C'', ''4'')" by code_simp
  have h3: "well_path_parts ''Q/1'' = Some (''Q'', ''1'')" by code_simp
  have h4: "(''Q'', ''1'') \<notin> set (plate_wells renamed_plate)" by code_simp
  have h5: "CHR '' '' \<in> set '' A/1''" "CHR '' '' \<noteq> CHR ''/''" "\<not> is_alnum CHR '' ''"
    by (simp_all add: is_alnum_def)
  have h6: "CHR ''?'' \<in> set ''A/?''" "CHR ''?'' \<noteq> CHR ''/''" "\<not> is_alnum CHR ''?''"
    by (simp_all add: is_alnum_def)
  note a = rename_well_failures [where p = renamed_plate and src = "''B/2''" and dst = "''C/4''"
      and t = "(''C'', ''4'')"]
  note b = rename_well_failures [where p = renamed_plate and src = "''Q/1''" and dst = "''Q/2''"
      and s = "(''Q'', ''1'')"]
  note c = rename_well_failures [where p = renamed_plate and src = "''B/2''" and dst = "'' A/1''"
      and c = "CHR '' ''" and path = "'' A/1''"]
  note d = rename_well_failures [where p = renamed_plate and src = "''B/2''" and dst = "''A/?''"
      and c = "CHR ''?''" and path = "''A/?''"]
  from a h1 h2 have c1: "rename_well renamed_plate ''B/2'' ''C/4'' = (renamed_plate, Inl ValueError)"
    by blast
  from b h3 h4 have c2: "rename_well renamed_plate ''Q/1'' ''Q/2'' = (renamed_plate, Inl ValueError)"
    by blast
  from c h5 have c3: "well_path_parts '' A/1'' = None" by blast
  with c have c4: "rename_well renamed_plate ''B/2'' '' A/1'' = (renamed_plate, Inl ValueError)"
    by blast
  from d h6 have c5: "well_path_parts ''A/?'' = None" by blast
  with d have c6: "rename_well renamed_plate ''B/2'' ''A/?'' = (renamed_plate, Inl ValueError)"
    by blast
  show ?thesis by (intro conjI h1 h2 h3 h4 h5(1,3) h6(1,3) c1 c2 c3 c4 c5 c6)
qed

section \<open>\<open>rename_well\<close>: what a successful rename does\<close>








end
